theory Spec2Isabelle
  imports Main
begin

text \<open>
  A model of the SFDX command-line wrapper tasks of \<^verbatim>\<open>cumulusci/tasks/sfdx.py\<close>: how
  a task builds its command and environment, how it decodes each line of output into a
  record, how a polling task keeps a job identifier and checks for completion, and how
  an exit code becomes an exception. Each method is a function named after its class and
  the method; the option handling of \<^verbatim>\<open>_init_options\<close> is not part of the model.
\<close>

section \<open>Python values, truthiness and exceptions\<close>

text \<open>
  The tasks of \<^verbatim>\<open>cumulusci/tasks/sfdx.py\<close> store whatever \<^verbatim>\<open>json.loads\<close> returns and
  later subscript it, call \<^verbatim>\<open>.get\<close> on it and test it in \<^verbatim>\<open>if\<close>. Decoded values are
  modelled by \<open>pyval\<close>: \<^verbatim>\<open>None\<close>, booleans, integers, strings, lists and dictionaries
  (association lists, looked up with \<open>map_of\<close>). JSON numbers are modelled by Python's
  unbounded \<^verbatim>\<open>int\<close>; no function of the file computes with a number.
\<close>

datatype pyval =
    PNone
  | PBool bool
  | PInt int
  | PStr string
  | PList "pyval list"
  | PDict "(string \<times> pyval) list"

text \<open>Truth value testing, as \<^verbatim>\<open>if x:\<close> does it.\<close>

fun truthy :: "pyval \<Rightarrow> bool" where
  "truthy PNone = False"
| "truthy (PBool b) = b"
| "truthy (PInt i) = (i \<noteq> 0)"
| "truthy (PStr s) = (s \<noteq> [])"
| "truthy (PList xs) = (xs \<noteq> [])"
| "truthy (PDict kvs) = (kvs \<noteq> [])"

text \<open>The comparison \<^verbatim>\<open>x == 0\<close>; Python's \<^verbatim>\<open>False\<close> equals \<^verbatim>\<open>0\<close>.\<close>

fun eq_zero :: "pyval \<Rightarrow> bool" where
  "eq_zero (PInt i) = (i = 0)"
| "eq_zero (PBool b) = (\<not> b)"
| "eq_zero PNone = False"
| "eq_zero (PStr s) = False"
| "eq_zero (PList xs) = False"
| "eq_zero (PDict kvs) = False"

datatype error =
    ValueError
  | KeyError string
  | TypeError
  | AttributeError
  | NotImplementedError string
  | CommandException pyval

text \<open>Subscription \<^verbatim>\<open>d[k]\<close> with a string key: only a dictionary accepts it.\<close>

fun getitem :: "pyval \<Rightarrow> string \<Rightarrow> error + pyval" where
  "getitem (PDict kvs) k = (case map_of kvs k of None \<Rightarrow> Inl (KeyError k) | Some v \<Rightarrow> Inr v)"
| "getitem PNone k = Inl TypeError"
| "getitem (PBool b) k = Inl TypeError"
| "getitem (PInt i) k = Inl TypeError"
| "getitem (PStr s) k = Inl TypeError"
| "getitem (PList xs) k = Inl TypeError"

text \<open>The method call \<^verbatim>\<open>d.get(k, default)\<close>: only a dictionary has the method.\<close>

fun dict_get :: "pyval \<Rightarrow> string \<Rightarrow> pyval \<Rightarrow> error + pyval" where
  "dict_get (PDict kvs) k d = Inr (case map_of kvs k of None \<Rightarrow> d | Some v \<Rightarrow> v)"
| "dict_get PNone k d = Inl AttributeError"
| "dict_get (PBool b) k d = Inl AttributeError"
| "dict_get (PInt i) k d = Inl AttributeError"
| "dict_get (PStr s) k d = Inl AttributeError"
| "dict_get (PList xs) k d = Inl AttributeError"

section \<open>The task object\<close>

datatype task_class =
    SFDXBaseTask
  | SFDXOrgTask
  | SFDXJsonTask
  | SFDXJsonPollingTask
  | SFDXConvertFrom
  | SFDXConvertTo
  | SFDXDeploy

text \<open>
  \<open>is_scratch\<close> is the test \<^verbatim>\<open>isinstance(self.org_config, ScratchOrgConfig)\<close>.
\<close>

record OrgConfig =
  is_scratch :: bool
  username :: string
  instance_url :: string
  access_token :: string

datatype log_entry = LogInfo pyval | LogError pyval

text \<open>
  The attributes of \<^verbatim>\<open>self\<close> that the file reads or writes. \<open>return_values_data\<close> is
  \<^verbatim>\<open>self.return_values['data']\<close>, \<open>None\<close> while the key is missing. \<open>job_id\<close> is
  \<open>None\<close> while the attribute does not exist (\<^verbatim>\<open>hasattr(self, 'job_id')\<close> is false) and
  \<open>Some PNone\<close> once \<^verbatim>\<open>_init_task\<close> has set it to Python's \<^verbatim>\<open>None\<close>. \<open>logger\<close> holds what
  was handed to \<^verbatim>\<open>self.logger.info\<close> and \<^verbatim>\<open>self.logger.error\<close>, oldest first.
\<close>

record task =
  cls :: task_class
  options :: "(string \<times> string) list"
  org_config :: OrgConfig
  return_values_data :: "pyval option"
  job_id :: "pyval option"
  poll_complete :: bool
  logger :: "log_entry list"

text \<open>
  A method takes the object and returns what it raised or returned together with the
  object as the call left it: an exception keeps every assignment made before it.
\<close>

type_synonym 'a action = "task \<Rightarrow> (error + 'a) \<times> task"

definition returns :: "'a \<Rightarrow> 'a action" where
  "returns x s = (Inr x, s)"

definition raises :: "error \<Rightarrow> 'a action" where
  "raises e s = (Inl e, s)"

definition logger_info :: "pyval \<Rightarrow> task \<Rightarrow> task" where
  "logger_info m s = s\<lparr>logger := logger s @ [LogInfo m]\<rparr>"

definition logger_error :: "pyval \<Rightarrow> task \<Rightarrow> task" where
  "logger_error m s = s\<lparr>logger := logger s @ [LogError m]\<rparr>"

text \<open>
  What the file uses and does not define: the standard library's \<^verbatim>\<open>json.loads\<close>
  (\<open>None\<close> where it raises \<^verbatim>\<open>ValueError\<close>) and \<^verbatim>\<open>str\<close> (as \<^verbatim>\<open>'{}'.format\<close> applies it),
  and the methods inherited from \<^verbatim>\<open>cumulusci.tasks.command.Command\<close> and its base task:
  \<^verbatim>\<open>_get_env\<close>, \<^verbatim>\<open>_init_task\<close>, \<^verbatim>\<open>_poll\<close> and \<^verbatim>\<open>_run_command\<close>. They are parameters
  of the model; every theorem holds whatever they are.
\<close>

record library =
  json_loads :: "string \<Rightarrow> pyval option"
  str_of :: "pyval \<Rightarrow> string"
  Command_get_env :: "string \<rightharpoonup> string"
  Command_init_task :: "unit action"
  Command_poll :: "unit action"
  Command_run_command :: "(string \<rightharpoonup> string) \<Rightarrow> string option \<Rightarrow> unit action"

text \<open>\<^verbatim>\<open>'{}'.format(v)\<close>: a string is inserted as it is.\<close>

definition format_value :: "library \<Rightarrow> pyval \<Rightarrow> string" where
  "format_value lib v = (case v of PStr t \<Rightarrow> t | _ \<Rightarrow> str_of lib v)"

section \<open>SFDXBaseTask and SFDXOrgTask\<close>

definition SFDX_CLI :: string where
  "SFDX_CLI = ''sfdx''"

text \<open>The class attribute \<^verbatim>\<open>command\<close>, found along the method resolution order.\<close>

fun class_command :: "task_class \<Rightarrow> string" where
  "class_command SFDXConvertFrom = ''force:source:convert''"
| "class_command SFDXConvertTo = ''force:mdapi:convert''"
| "class_command SFDXBaseTask = ''force --help''"
| "class_command SFDXOrgTask = ''force --help''"
| "class_command SFDXJsonTask = ''force --help''"
| "class_command SFDXJsonPollingTask = ''force --help''"
| "class_command SFDXDeploy = ''force --help''"

definition SFDXBaseTask_get_command :: "task \<Rightarrow> string" where
  "SFDXBaseTask_get_command s =
     SFDX_CLI @ '' '' @
       (case map_of (options s) ''command'' of
          None \<Rightarrow> class_command (cls s)
        | Some c \<Rightarrow> c)"

definition SFDXOrgTask_get_command :: "task \<Rightarrow> string" where
  "SFDXOrgTask_get_command s =
     (let command = SFDXBaseTask_get_command s in
      if is_scratch (org_config s)
      then command @ '' -u '' @ username (org_config s)
      else command)"

definition SFDXOrgTask_get_env :: "library \<Rightarrow> task \<Rightarrow> (string \<rightharpoonup> string)" where
  "SFDXOrgTask_get_env lib s =
     (let env = Command_get_env lib in
      if \<not> is_scratch (org_config s)
      then (env(''SFDX_INSTANCE_URL'' \<mapsto> instance_url (org_config s)))
             (''SFDX_USERNAME'' \<mapsto> access_token (org_config s))
      else env)"

section \<open>SFDXJsonPollingTask: completion check and poll data\<close>

text \<open>
  \<^verbatim>\<open>def _check_poll_done(self)\<close> takes no argument besides \<^verbatim>\<open>self\<close>; \<open>args\<close> are the
  positional arguments of a call, and a call with any raises \<^verbatim>\<open>TypeError\<close> before the
  body runs.
\<close>

definition SFDXJsonPollingTask_check_poll_done :: "pyval list \<Rightarrow> pyval action" where
  "SFDXJsonPollingTask_check_poll_done args s =
     (if args \<noteq> [] then raises TypeError s
      else (case return_values_data s of
              None \<Rightarrow> raises (KeyError ''data'') s
            | Some d \<Rightarrow>
                (case dict_get d ''done'' (PBool True) of
                   Inl e \<Rightarrow> raises e s
                 | Inr v \<Rightarrow> returns v s)))"

definition SFDXJsonPollingTask_process_poll_data :: "unit action" where
  "SFDXJsonPollingTask_process_poll_data s =
     (case return_values_data s of
        None \<Rightarrow> raises (KeyError ''data'') s
      | Some d \<Rightarrow>
          (case SFDXJsonPollingTask_check_poll_done [d] (logger_info d s) of
             (Inl e, s') \<Rightarrow> (Inl e, s')
           | (Inr v, s') \<Rightarrow>
               if truthy v then returns () (s'\<lparr>poll_complete := True\<rparr>) else returns () s'))"

section \<open>The hook \<^verbatim>\<open>_process_data\<close> of each class\<close>

definition SFDXJsonTask_process_data :: "library \<Rightarrow> unit action" where
  "SFDXJsonTask_process_data lib s =
     (case return_values_data s of
        None \<Rightarrow> raises (KeyError ''data'') s
      | Some d \<Rightarrow> returns () (logger_info (PStr (''JSON = '' @ format_value lib d)) s))"

definition SFDXJsonPollingTask_process_data :: "library \<Rightarrow> unit action" where
  "SFDXJsonPollingTask_process_data lib s =
     (case job_id s of
        None \<Rightarrow> raises AttributeError s
      | Some j \<Rightarrow>
          if truthy j then SFDXJsonPollingTask_process_poll_data s
          else (case return_values_data s of
                  None \<Rightarrow> raises (KeyError ''data'') s
                | Some d \<Rightarrow>
                    (case getitem d ''id'' of
                       Inl e \<Rightarrow> raises e s
                     | Inr v \<Rightarrow> Command_poll lib (s\<lparr>job_id := Some v\<rparr>))))"

text \<open>
  \<^verbatim>\<open>'... from {src} to {dest}'.format(**self.options)\<close> looks both keys up and raises
  \<^verbatim>\<open>KeyError\<close> on the first one that is missing.
\<close>

definition format_src_dest :: "string \<Rightarrow> task \<Rightarrow> error + string" where
  "format_src_dest msg s =
     (case map_of (options s) ''src'' of
        None \<Rightarrow> Inl (KeyError ''src'')
      | Some src \<Rightarrow>
          (case map_of (options s) ''dest'' of
             None \<Rightarrow> Inl (KeyError ''dest'')
           | Some dest \<Rightarrow> Inr (msg @ src @ '' to '' @ dest)))"

definition SFDXConvertFrom_process_data :: "unit action" where
  "SFDXConvertFrom_process_data s =
     (case return_values_data s of
        None \<Rightarrow> raises (KeyError ''data'') s
      | Some d \<Rightarrow>
          (case dict_get d ''status'' PNone of
             Inl e \<Rightarrow> raises e s
           | Inr status \<Rightarrow>
               if eq_zero status
               then (case format_src_dest ''Successfully converted DX format from '' s of
                       Inl e \<Rightarrow> raises e s
                     | Inr m \<Rightarrow> returns () (logger_info (PStr m) s))
               else returns () s))"

definition SFDXConvertTo_process_data :: "unit action" where
  "SFDXConvertTo_process_data s =
     (case return_values_data s of
        None \<Rightarrow> raises (KeyError ''data'') s
      | Some d \<Rightarrow>
          (case dict_get d ''status'' PNone of
             Inl e \<Rightarrow> raises e s
           | Inr status \<Rightarrow>
               if eq_zero status
               then (case format_src_dest ''Successfully converted metadata from '' s of
                       Inl e \<Rightarrow> raises e s
                     | Inr m \<Rightarrow> returns () (logger_info (PStr m) s))
               else returns () s))"

text \<open>
  The call \<^verbatim>\<open>self._process_data()\<close> runs the method of the object's class; the two
  classes that neither define nor inherit one have no such attribute.
\<close>

definition process_data :: "library \<Rightarrow> unit action" where
  "process_data lib s =
     (case cls s of
        SFDXBaseTask \<Rightarrow> raises AttributeError s
      | SFDXOrgTask \<Rightarrow> raises AttributeError s
      | SFDXJsonTask \<Rightarrow> SFDXJsonTask_process_data lib s
      | SFDXJsonPollingTask \<Rightarrow> SFDXJsonPollingTask_process_data lib s
      | SFDXConvertFrom \<Rightarrow> SFDXConvertFrom_process_data s
      | SFDXConvertTo \<Rightarrow> SFDXConvertTo_process_data s
      | SFDXDeploy \<Rightarrow> SFDXJsonPollingTask_process_data lib s)"

section \<open>Processing one line of output\<close>

definition SFDXJsonTask_process_output :: "library \<Rightarrow> string \<Rightarrow> unit action" where
  "SFDXJsonTask_process_output lib line s =
     (case json_loads lib line of
        None \<Rightarrow>
          raises ValueError
            (logger_error (PStr (''Failed to parse json from line: '' @ line)) s)
      | Some v \<Rightarrow> process_data lib (s\<lparr>return_values_data := Some v\<rparr>))"

definition SFDXJsonPollingTask_init_task :: "library \<Rightarrow> unit action" where
  "SFDXJsonPollingTask_init_task lib s =
     (case Command_init_task lib s of
        (Inl e, s') \<Rightarrow> (Inl e, s')
      | (Inr u, s') \<Rightarrow> returns () (s'\<lparr>job_id := Some PNone\<rparr>))"

definition SFDXJsonPollingTask_process_output :: "library \<Rightarrow> string \<Rightarrow> unit action" where
  "SFDXJsonPollingTask_process_output lib line s =
     (let started = (job_id s \<noteq> None) in
      case SFDXJsonTask_process_output lib line s of
        (Inl e, s') \<Rightarrow> (Inl e, s')
      | (Inr u, s') \<Rightarrow>
          if \<not> started then process_data lib s'
          else SFDXJsonPollingTask_process_poll_data s')"

section \<open>Poll commands\<close>

definition SFDXJsonPollingTask_get_poll_command :: "string option action" where
  "SFDXJsonPollingTask_get_poll_command s =
     raises (NotImplementedError ''Subclassess should provide an implementation'') s"

definition SFDXDeploy_get_poll_command :: "library \<Rightarrow> string option action" where
  "SFDXDeploy_get_poll_command lib s =
     (case job_id s of
        None \<Rightarrow> raises AttributeError s
      | Some j \<Rightarrow>
          if \<not> truthy j then returns None s
          else returns (Some (SFDXOrgTask_get_command s @ '' -i '' @ format_value lib j)) s)"

text \<open>
  \<^verbatim>\<open>self._get_poll_command()\<close> and \<^verbatim>\<open>self._get_env()\<close> as \<^verbatim>\<open>_poll_action\<close> calls them:
  only \<^verbatim>\<open>SFDXDeploy\<close> overrides the first, and only it has \<^verbatim>\<open>SFDXOrgTask\<close> among its
  bases for the second.
\<close>

definition get_poll_command :: "library \<Rightarrow> string option action" where
  "get_poll_command lib s =
     (if cls s = SFDXDeploy then SFDXDeploy_get_poll_command lib s
      else SFDXJsonPollingTask_get_poll_command s)"

definition get_env :: "library \<Rightarrow> task \<Rightarrow> (string \<rightharpoonup> string)" where
  "get_env lib s =
     (if cls s = SFDXDeploy \<or> cls s = SFDXOrgTask then SFDXOrgTask_get_env lib s
      else Command_get_env lib)"

definition SFDXJsonPollingTask_poll_action :: "library \<Rightarrow> unit action" where
  "SFDXJsonPollingTask_poll_action lib s =
     (case get_poll_command lib s of
        (Inl e, s') \<Rightarrow> (Inl e, s')
      | (Inr command, s') \<Rightarrow> Command_run_command lib (get_env lib s') command s')"

section \<open>Exit codes\<close>

text \<open>
  \<^verbatim>\<open>SFDXConvertFrom._handle_returncode(returncode, stderr)\<close>; \<^verbatim>\<open>stderr\<close> is not read.
\<close>

definition SFDXConvertFrom_handle_returncode :: "int \<Rightarrow> unit action" where
  "SFDXConvertFrom_handle_returncode returncode s =
     (if returncode \<noteq> 0
      then (case return_values_data s of
              None \<Rightarrow> raises (KeyError ''data'') s
            | Some d \<Rightarrow>
                (case getitem d ''message'' of
                   Inl e \<Rightarrow> raises e s
                 | Inr m \<Rightarrow> raises (CommandException m) (logger_error m s)))
      else returns () s)"

section \<open>Example inputs\<close>

text \<open>
  A decoder that knows a few lines, collaborators that do nothing, and a task as
  \<^verbatim>\<open>_init_task\<close> leaves it: the concrete inputs at which the theorems below are
  instantiated. \<open>started_task\<close> is a deploy task after its first record
  \<^verbatim>\<open>{"id": "J1", "done": false}\<close>.
\<close>

definition example_records :: "(string \<times> pyval) list" where
  "example_records =
     [(''{\"id\": \"J1\", \"done\": false}'',
         PDict [(''id'', PStr ''J1''), (''done'', PBool False)]),
      (''{\"done\": false}'', PDict [(''done'', PBool False)]),
      (''{\"done\": true}'', PDict [(''done'', PBool True)]),
      (''{\"status\": 0}'', PDict [(''status'', PInt 0)]),
      (''{\"status\": 1, \"message\": \"bad path\"}'',
         PDict [(''status'', PInt 1), (''message'', PStr ''bad path'')])]"

definition example_library :: library where
  "example_library =
     \<lparr>json_loads = map_of example_records,
      str_of = (\<lambda>v. ''<object>''),
      Command_get_env = [''PATH'' \<mapsto> ''/usr/bin''],
      Command_init_task = returns (),
      Command_poll = returns (),
      Command_run_command = (\<lambda>env command. returns ())\<rparr>"

definition example_task :: "task_class \<Rightarrow> bool \<Rightarrow> task" where
  "example_task c scratch =
     \<lparr>cls = c,
      options =
        [(''command'', ''force:mdapi:deploy''), (''src'', ''force-app''), (''dest'', ''src'')],
      org_config =
        \<lparr>is_scratch = scratch, username = ''test@example.com'',
         instance_url = ''https://x'', access_token = ''abc''\<rparr>,
      return_values_data = None,
      job_id = Some PNone,
      poll_complete = False,
      logger = []\<rparr>"

definition started_task :: task where
  "started_task =
     (example_task SFDXDeploy True)
       \<lparr>return_values_data := Some (PDict [(''id'', PStr ''J1''), (''done'', PBool False)]),
        job_id := Some (PStr ''J1'')\<rparr>"

definition done_task :: task where
  "done_task = started_task\<lparr>return_values_data := Some (PDict [(''done'', PBool True)])\<rparr>"

text \<open>
  Modelled from the spec: the inherited \<^verbatim>\<open>_poll\<close> and \<^verbatim>\<open>_run_command\<close>, which the file
  calls and does not define. The spec has a poll build the status-check command from the
  stored identifier and run the process again, every line of its output going to the
  line handler. In \<open>one_poll_library\<close> the process of a poll prints the single line
  \<^verbatim>\<open>{"done": false}\<close>, handed to \<^verbatim>\<open>_process_output\<close>, and \<^verbatim>\<open>_poll\<close> is one poll action.
\<close>

definition one_poll_library :: library where
  "one_poll_library =
     example_library
       \<lparr>Command_poll :=
          SFDXJsonPollingTask_poll_action
            (example_library
               \<lparr>Command_run_command :=
                  (\<lambda>env command.
                     SFDXJsonPollingTask_process_output example_library
                       ''{\"done\": false}'')\<rparr>)\<rparr>"

section \<open>Decoding a line\<close>

text \<open>
  C4. A line that \<^verbatim>\<open>json.loads\<close> rejects makes \<^verbatim>\<open>_process_output\<close> raise the decoder's
  \<^verbatim>\<open>ValueError\<close> after logging the line, in \<^verbatim>\<open>SFDXJsonTask\<close> and in the polling
  override alike, and the record stored before the call is still the stored record
  after it: nothing but the log has changed.
\<close>

theorem malformed_line_raises_and_keeps_record:
  assumes "json_loads lib line = None"
  shows "SFDXJsonTask_process_output lib line s =
           (Inl ValueError, logger_error (PStr (''Failed to parse json from line: '' @ line)) s)
       \<and> SFDXJsonPollingTask_process_output lib line s =
           (Inl ValueError, logger_error (PStr (''Failed to parse json from line: '' @ line)) s)
       \<and> return_values_data (snd (SFDXJsonTask_process_output lib line s)) =
           return_values_data s
       \<and> return_values_data (snd (SFDXJsonPollingTask_process_output lib line s)) =
           return_values_data s"
  using assms
  by (simp add: SFDXJsonTask_process_output_def SFDXJsonPollingTask_process_output_def
      raises_def logger_error_def)

theorem malformed_line_raises_and_keeps_record_witness:
  "json_loads example_library ''not json'' = None
   \<and> fst (SFDXJsonPollingTask_process_output example_library ''not json'' started_task) =
       Inl ValueError
   \<and> return_values_data
        (snd (SFDXJsonPollingTask_process_output example_library ''not json'' started_task)) =
       Some (PDict [(''id'', PStr ''J1''), (''done'', PBool False)])"
proof -
  have h: "json_loads example_library ''not json'' = None"
    by (simp add: example_library_def example_records_def)
  show ?thesis
    using h malformed_line_raises_and_keeps_record [OF h, of started_task]
    by (simp add: started_task_def logger_error_def)
qed

lemma process_poll_data_record:
  "return_values_data (snd (SFDXJsonPollingTask_process_poll_data s)) = return_values_data s"
  by (cases "return_values_data s")
    (simp_all add: SFDXJsonPollingTask_process_poll_data_def
      SFDXJsonPollingTask_check_poll_done_def raises_def logger_info_def)

text \<open>
  C7, as the code has it. A line that decodes to \<open>v\<close> makes
  \<^verbatim>\<open>SFDXJsonTask._process_output\<close> store exactly \<open>v\<close>, whatever was stored before, and
  hand the task to the \<^verbatim>\<open>_process_data\<close> hook. For every class whose hook does not start
  polling, \<open>v\<close> is the stored record when the call ends, also when the hook raises; so it
  is at the end of a polling task's \<^verbatim>\<open>_process_output\<close> once the job identifier is set,
  and on a polling task's first line when \<open>v\<close> has no identifier to read. When the first
  line of a polling task has one, \<^verbatim>\<open>_poll\<close> runs inside the call on the task holding
  \<open>v\<close> and the new identifier, and the call ends as \<^verbatim>\<open>_poll\<close> does: the record stored
  then is the one \<^verbatim>\<open>_poll\<close> leaves.
\<close>

theorem decoded_line_replaces_record:
  assumes "json_loads lib line = Some v"
  shows "SFDXJsonTask_process_output lib line s =
           process_data lib (s\<lparr>return_values_data := Some v\<rparr>)
       \<and> (cls s \<noteq> SFDXJsonPollingTask \<and> cls s \<noteq> SFDXDeploy \<longrightarrow>
            return_values_data (snd (SFDXJsonTask_process_output lib line s)) = Some v)
       \<and> ((cls s = SFDXJsonPollingTask \<or> cls s = SFDXDeploy) \<and> job_id s = Some j \<and> truthy j
            \<longrightarrow>
            return_values_data (snd (SFDXJsonPollingTask_process_output lib line s)) = Some v)
       \<and> ((cls s = SFDXJsonPollingTask \<or> cls s = SFDXDeploy) \<and> job_id s = Some j
            \<and> \<not> truthy j \<and> getitem v ''id'' = Inl e \<longrightarrow>
            SFDXJsonTask_process_output lib line s =
              (Inl e, s\<lparr>return_values_data := Some v\<rparr>))
       \<and> ((cls s = SFDXJsonPollingTask \<or> cls s = SFDXDeploy) \<and> job_id s = Some j
            \<and> \<not> truthy j \<and> getitem v ''id'' = Inr i \<longrightarrow>
            SFDXJsonTask_process_output lib line s =
              Command_poll lib (s\<lparr>return_values_data := Some v, job_id := Some i\<rparr>))"
proof -
  let ?t = "s\<lparr>return_values_data := Some v\<rparr>"
  have step: "SFDXJsonTask_process_output lib line s = process_data lib ?t"
    using assms by (simp add: SFDXJsonTask_process_output_def)
  have keep: "return_values_data (snd (process_data lib ?t)) = Some v"
    if "cls s \<noteq> SFDXJsonPollingTask" "cls s \<noteq> SFDXDeploy"
    using that
    by (cases "cls s")
      (auto simp: process_data_def SFDXJsonTask_process_data_def
        SFDXConvertFrom_process_data_def SFDXConvertTo_process_data_def
        raises_def returns_def logger_info_def
        split: sum.splits)
  have polling: "return_values_data (snd (SFDXJsonPollingTask_process_output lib line s)) = Some v"
    if c: "cls s = SFDXJsonPollingTask \<or> cls s = SFDXDeploy"
      and j: "job_id s = Some j" "truthy j"
  proof -
    have inner: "SFDXJsonTask_process_output lib line s = SFDXJsonPollingTask_process_poll_data ?t"
      using c j by (auto simp: step process_data_def SFDXJsonPollingTask_process_data_def)
    obtain r s' where run: "SFDXJsonPollingTask_process_poll_data ?t = (r, s')"
      by (cases "SFDXJsonPollingTask_process_poll_data ?t")
    have stored: "return_values_data s' = Some v"
      using process_poll_data_record [of ?t] by (simp add: run)
    show ?thesis
      using stored process_poll_data_record [of s'] j
      by (cases r) (simp_all add: SFDXJsonPollingTask_process_output_def inner run)
  qed
  have no_id: "process_data lib ?t = (Inl e, ?t)"
    if "cls s = SFDXJsonPollingTask \<or> cls s = SFDXDeploy"
      and "job_id s = Some j" "\<not> truthy j" "getitem v ''id'' = Inl e"
    using that by (auto simp: process_data_def SFDXJsonPollingTask_process_data_def raises_def)
  have with_id: "process_data lib ?t =
      Command_poll lib (s\<lparr>return_values_data := Some v, job_id := Some i\<rparr>)"
    if "cls s = SFDXJsonPollingTask \<or> cls s = SFDXDeploy"
      and "job_id s = Some j" "\<not> truthy j" "getitem v ''id'' = Inr i"
    using that by (auto simp: process_data_def SFDXJsonPollingTask_process_data_def)
  show ?thesis using step keep polling no_id with_id by simp
qed

theorem decoded_line_replaces_record_witness:
  "json_loads example_library ''{\"status\": 0}'' = Some (PDict [(''status'', PInt 0)])
   \<and> cls ((example_task SFDXConvertFrom False)\<lparr>return_values_data := Some (PInt 7)\<rparr>)
       \<noteq> SFDXJsonPollingTask
   \<and> cls ((example_task SFDXConvertFrom False)\<lparr>return_values_data := Some (PInt 7)\<rparr>)
       \<noteq> SFDXDeploy
   \<and> return_values_data
        (snd (SFDXJsonTask_process_output example_library ''{\"status\": 0}''
               ((example_task SFDXConvertFrom False)\<lparr>return_values_data := Some (PInt 7)\<rparr>)))
       = Some (PDict [(''status'', PInt 0)])
   \<and> (cls started_task = SFDXJsonPollingTask \<or> cls started_task = SFDXDeploy)
   \<and> job_id started_task = Some (PStr ''J1'') \<and> truthy (PStr ''J1'')
   \<and> return_values_data
        (snd (SFDXJsonPollingTask_process_output example_library ''{\"status\": 0}''
               started_task))
       = Some (PDict [(''status'', PInt 0)])
   \<and> (cls (example_task SFDXDeploy True) = SFDXJsonPollingTask
        \<or> cls (example_task SFDXDeploy True) = SFDXDeploy)
   \<and> job_id (example_task SFDXDeploy True) = Some PNone \<and> \<not> truthy PNone
   \<and> getitem (PDict [(''status'', PInt 0)]) ''id'' = Inl (KeyError ''id'')
   \<and> SFDXJsonTask_process_output example_library ''{\"status\": 0}''
        (example_task SFDXDeploy True)
       = (Inl (KeyError ''id''),
          (example_task SFDXDeploy True)
            \<lparr>return_values_data := Some (PDict [(''status'', PInt 0)])\<rparr>)
   \<and> json_loads example_library ''{\"id\": \"J1\", \"done\": false}'' =
       Some (PDict [(''id'', PStr ''J1''), (''done'', PBool False)])
   \<and> getitem (PDict [(''id'', PStr ''J1''), (''done'', PBool False)]) ''id'' =
       Inr (PStr ''J1'')
   \<and> SFDXJsonTask_process_output example_library ''{\"id\": \"J1\", \"done\": false}''
        (example_task SFDXDeploy True)
       = Command_poll example_library started_task"
proof -
  have h: "json_loads example_library ''{\"status\": 0}'' = Some (PDict [(''status'', PInt 0)])"
    by (simp add: example_library_def example_records_def)
  have h': "json_loads example_library ''{\"id\": \"J1\", \"done\": false}'' =
      Some (PDict [(''id'', PStr ''J1''), (''done'', PBool False)])"
    by (simp add: example_library_def example_records_def)
  have c: "cls ((example_task SFDXConvertFrom False)\<lparr>return_values_data := Some (PInt 7)\<rparr>)
        \<noteq> SFDXJsonPollingTask
      \<and> cls ((example_task SFDXConvertFrom False)\<lparr>return_values_data := Some (PInt 7)\<rparr>)
        \<noteq> SFDXDeploy"
    by (simp add: example_task_def)
  have p: "(cls started_task = SFDXJsonPollingTask \<or> cls started_task = SFDXDeploy)
      \<and> job_id started_task = Some (PStr ''J1'') \<and> truthy (PStr ''J1'')"
    by (simp add: started_task_def example_task_def)
  have f: "(cls (example_task SFDXDeploy True) = SFDXJsonPollingTask
        \<or> cls (example_task SFDXDeploy True) = SFDXDeploy)
      \<and> job_id (example_task SFDXDeploy True) = Some PNone \<and> \<not> truthy PNone"
    by (simp add: example_task_def)
  have g: "getitem (PDict [(''status'', PInt 0)]) ''id'' = Inl (KeyError ''id'')"
    by simp
  have g': "getitem (PDict [(''id'', PStr ''J1''), (''done'', PBool False)]) ''id'' =
      Inr (PStr ''J1'')"
    by simp
  have upd: "(example_task SFDXDeploy True)
        \<lparr>return_values_data := Some (PDict [(''id'', PStr ''J1''), (''done'', PBool False)]),
         job_id := Some (PStr ''J1'')\<rparr> = started_task"
    by (simp add: started_task_def)
  note first_line = decoded_line_replaces_record
      [OF h', of "example_task SFDXDeploy True" PNone _ "PStr ''J1''"]
  have first: "SFDXJsonTask_process_output example_library ''{\"id\": \"J1\", \"done\": false}''
        (example_task SFDXDeploy True)
       = Command_poll example_library started_task"
    using f g' first_line [THEN conjunct2, THEN conjunct2, THEN conjunct2, THEN conjunct2]
    unfolding upd by blast
  note convert = decoded_line_replaces_record
      [OF h, of "(example_task SFDXConvertFrom False)\<lparr>return_values_data := Some (PInt 7)\<rparr>"]
  have r1: "return_values_data
        (snd (SFDXJsonTask_process_output example_library ''{\"status\": 0}''
               ((example_task SFDXConvertFrom False)\<lparr>return_values_data := Some (PInt 7)\<rparr>)))
       = Some (PDict [(''status'', PInt 0)])"
    using c convert [THEN conjunct2, THEN conjunct1] by blast
  note poll_line = decoded_line_replaces_record [OF h, of started_task "PStr ''J1''"]
  have r2: "return_values_data
        (snd (SFDXJsonPollingTask_process_output example_library ''{\"status\": 0}''
               started_task))
       = Some (PDict [(''status'', PInt 0)])"
    using p poll_line [THEN conjunct2, THEN conjunct2, THEN conjunct1] by blast
  note no_id = decoded_line_replaces_record
      [OF h, of "example_task SFDXDeploy True" PNone "KeyError ''id''"]
  have r3: "SFDXJsonTask_process_output example_library ''{\"status\": 0}''
        (example_task SFDXDeploy True)
       = (Inl (KeyError ''id''),
          (example_task SFDXDeploy True)
            \<lparr>return_values_data := Some (PDict [(''status'', PInt 0)])\<rparr>)"
    using f g no_id [THEN conjunct2, THEN conjunct2, THEN conjunct2, THEN conjunct1] by blast
  show ?thesis
    using h h' c p f g g' first r1 r2 r3 by (intro conjI) blast+
qed

text \<open>
  C7, as the claim states it, fails on the first line of a polling task. The line
  \<^verbatim>\<open>{"id": "J1", "done": false}\<close> decodes, \<^verbatim>\<open>_poll\<close> runs inside the call, and the poll's
  line \<^verbatim>\<open>{"done": false}\<close> overwrites the record: when the call ends (with the error of
  the poll line) the stored record is the poll's, not the decoded value of the line.
\<close>

theorem first_line_of_polling_task_ends_with_poll_record:
  "json_loads one_poll_library ''{\"id\": \"J1\", \"done\": false}'' =
     Some (PDict [(''id'', PStr ''J1''), (''done'', PBool False)])
   \<and> SFDXJsonTask_process_output one_poll_library ''{\"id\": \"J1\", \"done\": false}''
        (example_task SFDXDeploy True)
     = (Inl TypeError,
        started_task\<lparr>return_values_data := Some (PDict [(''done'', PBool False)]),
                     logger := [LogInfo (PDict [(''done'', PBool False)])]\<rparr>)
   \<and> return_values_data
        (snd (SFDXJsonTask_process_output one_poll_library ''{\"id\": \"J1\", \"done\": false}''
               (example_task SFDXDeploy True)))
     \<noteq> Some (PDict [(''id'', PStr ''J1''), (''done'', PBool False)])"
proof -
  have decode: "json_loads one_poll_library ''{\"id\": \"J1\", \"done\": false}'' =
      Some (PDict [(''id'', PStr ''J1''), (''done'', PBool False)])"
    by (simp add: one_poll_library_def example_library_def example_records_def)
  have run: "SFDXJsonTask_process_output one_poll_library ''{\"id\": \"J1\", \"done\": false}''
        (example_task SFDXDeploy True)
     = (Inl TypeError,
        started_task\<lparr>return_values_data := Some (PDict [(''done'', PBool False)]),
                     logger := [LogInfo (PDict [(''done'', PBool False)])]\<rparr>)"
    by (simp add: SFDXJsonTask_process_output_def process_data_def
        SFDXJsonPollingTask_process_data_def SFDXJsonPollingTask_poll_action_def
        get_poll_command_def get_env_def SFDXDeploy_get_poll_command_def
        SFDXJsonPollingTask_process_output_def SFDXJsonPollingTask_process_poll_data_def
        SFDXJsonPollingTask_check_poll_done_def one_poll_library_def example_library_def
        example_records_def example_task_def started_task_def raises_def returns_def
        logger_info_def)
  show ?thesis using decode run by simp
qed

section \<open>Command and environment of an org-bound task\<close>

text \<open>
  C8. For a scratch org \<^verbatim>\<open>SFDXOrgTask._get_command\<close> is the base command followed by
  \<^verbatim>\<open> -u <username>\<close>, and \<^verbatim>\<open>_get_env\<close> is the inherited environment with nothing
  added. For any other org the command is the base command with nothing appended, and
  the environment is the inherited one with \<^verbatim>\<open>SFDX_INSTANCE_URL\<close> set to the instance
  URL and \<^verbatim>\<open>SFDX_USERNAME\<close> set to the access token; every other variable is as
  inherited.
\<close>

theorem org_task_command_and_env:
  "(is_scratch (org_config s) \<longrightarrow>
      SFDXOrgTask_get_command s =
        SFDXBaseTask_get_command s @ '' -u '' @ username (org_config s)
      \<and> SFDXOrgTask_get_env lib s = Command_get_env lib)
   \<and> (\<not> is_scratch (org_config s) \<longrightarrow>
      SFDXOrgTask_get_command s = SFDXBaseTask_get_command s
      \<and> SFDXOrgTask_get_env lib s ''SFDX_INSTANCE_URL'' = Some (instance_url (org_config s))
      \<and> SFDXOrgTask_get_env lib s ''SFDX_USERNAME'' = Some (access_token (org_config s))
      \<and> (\<forall>name. name \<noteq> ''SFDX_INSTANCE_URL'' \<and> name \<noteq> ''SFDX_USERNAME'' \<longrightarrow>
            SFDXOrgTask_get_env lib s name = Command_get_env lib name))"
  by (simp add: SFDXOrgTask_get_command_def SFDXOrgTask_get_env_def)

theorem org_task_command_and_env_witness:
  "is_scratch (org_config (example_task SFDXOrgTask True))
   \<and> SFDXOrgTask_get_command (example_task SFDXOrgTask True) =
       ''sfdx force:mdapi:deploy -u test@example.com''
   \<and> SFDXOrgTask_get_env example_library (example_task SFDXOrgTask True) =
       [''PATH'' \<mapsto> ''/usr/bin'']
   \<and> \<not> is_scratch (org_config (example_task SFDXOrgTask False))
   \<and> SFDXOrgTask_get_command (example_task SFDXOrgTask False) = ''sfdx force:mdapi:deploy''
   \<and> SFDXOrgTask_get_env example_library (example_task SFDXOrgTask False)
        ''SFDX_INSTANCE_URL'' = Some ''https://x''
   \<and> SFDXOrgTask_get_env example_library (example_task SFDXOrgTask False)
        ''SFDX_USERNAME'' = Some ''abc''
   \<and> SFDXOrgTask_get_env example_library (example_task SFDXOrgTask False) ''PATH'' =
       Some ''/usr/bin''"
  using org_task_command_and_env [of "example_task SFDXOrgTask True" example_library]
    org_task_command_and_env [of "example_task SFDXOrgTask False" example_library]
  by (simp add: example_task_def example_library_def SFDXBaseTask_get_command_def SFDX_CLI_def)

section \<open>Exit codes of the conversion task\<close>

text \<open>
  C5, as the code has it. With a non-zero exit code and a last record that is a
  mapping, \<^verbatim>\<open>SFDXConvertFrom._handle_returncode\<close> raises \<^verbatim>\<open>CommandException\<close> carrying
  the record's \<^verbatim>\<open>message\<close> field when the field is there, and \<^verbatim>\<open>KeyError\<close> for the
  missing key when it is not: there is no generic message. With exit code 0 it returns
  without an error, whatever is stored.
\<close>

theorem convert_from_handle_returncode:
  "(returncode \<noteq> 0 \<and> return_values_data s = Some (PDict kvs)
      \<and> map_of kvs ''message'' = Some m \<longrightarrow>
      SFDXConvertFrom_handle_returncode returncode s =
        (Inl (CommandException m), logger_error m s))
   \<and> (returncode \<noteq> 0 \<and> return_values_data s = Some (PDict kvs)
      \<and> map_of kvs ''message'' = None \<longrightarrow>
      SFDXConvertFrom_handle_returncode returncode s = (Inl (KeyError ''message''), s))
   \<and> (returncode = 0 \<longrightarrow> SFDXConvertFrom_handle_returncode returncode s = (Inr (), s))"
  by (simp add: SFDXConvertFrom_handle_returncode_def raises_def returns_def)

theorem convert_from_handle_returncode_witness:
  "return_values_data
     ((example_task SFDXConvertFrom False)
        \<lparr>return_values_data := Some (PDict [(''status'', PInt 1), (''message'', PStr ''bad path'')])\<rparr>)
     = Some (PDict [(''status'', PInt 1), (''message'', PStr ''bad path'')])
   \<and> map_of [(''status'', PInt 1), (''message'', PStr ''bad path'')] ''message'' =
       Some (PStr ''bad path'')
   \<and> fst (SFDXConvertFrom_handle_returncode 1
        ((example_task SFDXConvertFrom False)
           \<lparr>return_values_data :=
              Some (PDict [(''status'', PInt 1), (''message'', PStr ''bad path'')])\<rparr>))
     = Inl (CommandException (PStr ''bad path''))
   \<and> map_of [(''status'', PInt 1)] ''message'' = None
   \<and> fst (SFDXConvertFrom_handle_returncode 1
        ((example_task SFDXConvertFrom False)
           \<lparr>return_values_data := Some (PDict [(''status'', PInt 1)])\<rparr>))
     = Inl (KeyError ''message'')
   \<and> fst (SFDXConvertFrom_handle_returncode 0
        ((example_task SFDXConvertFrom False)
           \<lparr>return_values_data := Some (PDict [(''status'', PInt 1)])\<rparr>))
     = Inr ()"
  using convert_from_handle_returncode
      [of 1 "(example_task SFDXConvertFrom False)
               \<lparr>return_values_data :=
                  Some (PDict [(''status'', PInt 1), (''message'', PStr ''bad path'')])\<rparr>"
          "[(''status'', PInt 1), (''message'', PStr ''bad path'')]" "PStr ''bad path''"]
    convert_from_handle_returncode
      [of 1 "(example_task SFDXConvertFrom False)
               \<lparr>return_values_data := Some (PDict [(''status'', PInt 1)])\<rparr>"
          "[(''status'', PInt 1)]"]
    convert_from_handle_returncode
      [of 0 "(example_task SFDXConvertFrom False)
               \<lparr>return_values_data := Some (PDict [(''status'', PInt 1)])\<rparr>"]
  by simp

text \<open>
  C5, as the claim states it, fails: exit code 1 with the last record \<^verbatim>\<open>{"status": 1}\<close>
  raises \<^verbatim>\<open>KeyError\<close>, not a command failure with a generic message.
\<close>

theorem convert_from_missing_message_raises_KeyError:
  "SFDXConvertFrom_handle_returncode 1
     ((example_task SFDXConvertFrom False)
        \<lparr>return_values_data := Some (PDict [(''status'', PInt 1)])\<rparr>)
   = (Inl (KeyError ''message''),
      (example_task SFDXConvertFrom False)
        \<lparr>return_values_data := Some (PDict [(''status'', PInt 1)])\<rparr>)"
  by (simp add: SFDXConvertFrom_handle_returncode_def raises_def)

section \<open>The poll command\<close>

text \<open>
  C2, as the code has it. \<^verbatim>\<open>SFDXJsonPollingTask._get_poll_command\<close> raises
  \<^verbatim>\<open>NotImplementedError\<close> whether or not a job identifier is set. The override of
  \<^verbatim>\<open>SFDXDeploy\<close> returns \<^verbatim>\<open>None\<close> and raises nothing while the job identifier is
  \<^verbatim>\<open>None\<close> or another false value, and returns the command ending in
  \<^verbatim>\<open> -i <job id>\<close> once it is set.
\<close>

theorem get_poll_command_without_job_id:
  "SFDXJsonPollingTask_get_poll_command s =
     (Inl (NotImplementedError ''Subclassess should provide an implementation''), s)
   \<and> (job_id s = Some j \<and> \<not> truthy j \<longrightarrow>
        SFDXDeploy_get_poll_command lib s = (Inr None, s))
   \<and> (job_id s = Some j \<and> truthy j \<longrightarrow>
        SFDXDeploy_get_poll_command lib s =
          (Inr (Some (SFDXOrgTask_get_command s @ '' -i '' @ format_value lib j)), s))"
  by (simp add: SFDXJsonPollingTask_get_poll_command_def SFDXDeploy_get_poll_command_def
      raises_def returns_def)

theorem get_poll_command_without_job_id_witness:
  "job_id (example_task SFDXDeploy False) = Some PNone \<and> \<not> truthy PNone
   \<and> fst (SFDXDeploy_get_poll_command example_library (example_task SFDXDeploy False)) =
       Inr None
   \<and> job_id started_task = Some (PStr ''J1'') \<and> truthy (PStr ''J1'')
   \<and> fst (SFDXDeploy_get_poll_command example_library started_task) =
       Inr (Some ''sfdx force:mdapi:deploy -u test@example.com -i J1'')"
  using get_poll_command_without_job_id [of "example_task SFDXDeploy False" PNone example_library]
    get_poll_command_without_job_id [of started_task "PStr ''J1''" example_library]
  by (simp add: example_task_def started_task_def SFDXOrgTask_get_command_def
      SFDXBaseTask_get_command_def SFDX_CLI_def format_value_def)

text \<open>
  C2, as the claim states it, fails: on a deploy task whose job identifier is still
  \<^verbatim>\<open>None\<close>, \<^verbatim>\<open>_get_poll_command\<close> returns \<^verbatim>\<open>None\<close> and leaves the task as it was.
\<close>

theorem deploy_get_poll_command_returns_None:
  "SFDXDeploy_get_poll_command example_library (example_task SFDXDeploy True)
   = (Inr None, example_task SFDXDeploy True)"
  by (simp add: SFDXDeploy_get_poll_command_def example_task_def returns_def)

section \<open>The first record of a polling task\<close>

text \<open>
  C6, as the code has it. On a polling task whose job identifier is still \<^verbatim>\<open>None\<close> (or
  another false value), a line that decodes to a mapping with an \<^verbatim>\<open>id\<close> field stores
  that field, true or false, as the job identifier and starts \<^verbatim>\<open>_poll\<close> on the task so
  updated; a mapping without the field makes the line fail with \<^verbatim>\<open>KeyError\<close>, the job
  identifier and the completion flag staying as they were. The completion check is not
  consulted before either.
\<close>

theorem first_record_sets_job_id:
  assumes "json_loads lib line = Some (PDict kvs)"
    and "cls s = SFDXJsonPollingTask \<or> cls s = SFDXDeploy"
    and "job_id s = Some j" and "\<not> truthy j"
  shows "(map_of kvs ''id'' = Some v \<longrightarrow>
            SFDXJsonTask_process_output lib line s =
              Command_poll lib (s\<lparr>return_values_data := Some (PDict kvs), job_id := Some v\<rparr>))
       \<and> (map_of kvs ''id'' = None \<longrightarrow>
            SFDXJsonPollingTask_process_output lib line s =
              (Inl (KeyError ''id''), s\<lparr>return_values_data := Some (PDict kvs)\<rparr>))"
  using assms
  by (auto simp: SFDXJsonPollingTask_process_output_def SFDXJsonTask_process_output_def
      process_data_def SFDXJsonPollingTask_process_data_def raises_def)

theorem first_record_sets_job_id_witness:
  "json_loads example_library ''{\"id\": \"J1\", \"done\": false}'' =
     Some (PDict [(''id'', PStr ''J1''), (''done'', PBool False)])
   \<and> json_loads example_library ''{\"done\": true}'' = Some (PDict [(''done'', PBool True)])
   \<and> (cls (example_task SFDXDeploy True) = SFDXJsonPollingTask
        \<or> cls (example_task SFDXDeploy True) = SFDXDeploy)
   \<and> job_id (example_task SFDXDeploy True) = Some PNone \<and> \<not> truthy PNone
   \<and> map_of [(''id'', PStr ''J1''), (''done'', PBool False)] ''id'' = Some (PStr ''J1'')
   \<and> SFDXJsonTask_process_output example_library ''{\"id\": \"J1\", \"done\": false}''
        (example_task SFDXDeploy True) = (Inr (), started_task)
   \<and> map_of [(''done'', PBool True)] ''id'' = None
   \<and> fst (SFDXJsonPollingTask_process_output example_library ''{\"done\": true}''
        (example_task SFDXDeploy True)) = Inl (KeyError ''id'')"
proof -
  have h1: "json_loads example_library ''{\"id\": \"J1\", \"done\": false}'' =
      Some (PDict [(''id'', PStr ''J1''), (''done'', PBool False)])"
    by (simp add: example_library_def example_records_def)
  have h1': "json_loads example_library ''{\"done\": true}'' =
      Some (PDict [(''done'', PBool True)])"
    by (simp add: example_library_def example_records_def)
  have h2: "cls (example_task SFDXDeploy True) = SFDXJsonPollingTask
      \<or> cls (example_task SFDXDeploy True) = SFDXDeploy"
    by (simp add: example_task_def)
  have h3: "job_id (example_task SFDXDeploy True) = Some PNone"
    by (simp add: example_task_def)
  have h4: "\<not> truthy PNone"
    by simp
  have h5: "map_of [(''id'', PStr ''J1''), (''done'', PBool False)] ''id'' = Some (PStr ''J1'')"
    by simp
  have h5': "map_of [(''done'', PBool True)] ''id'' = None"
    by simp
  have poll: "Command_poll example_library started_task = (Inr (), started_task)"
    by (simp add: example_library_def returns_def)
  have present: "SFDXJsonTask_process_output example_library ''{\"id\": \"J1\", \"done\": false}''
        (example_task SFDXDeploy True) = (Inr (), started_task)"
    using h5 poll first_record_sets_job_id [OF h1 h2 h3 h4, of "PStr ''J1''"]
    by (simp add: started_task_def)
  have absent: "fst (SFDXJsonPollingTask_process_output example_library ''{\"done\": true}''
        (example_task SFDXDeploy True)) = Inl (KeyError ''id'')"
    using h5' first_record_sets_job_id [OF h1' h2 h3 h4] by simp
  show ?thesis
    using h1 h1' h2 h3 h4 h5 h5' present absent by blast
qed

text \<open>
  C6, as the claim states it, fails: the first record \<^verbatim>\<open>{"done": true}\<close> has no
  identifier and its \<^verbatim>\<open>done\<close> field holds, yet the line ends in \<^verbatim>\<open>KeyError\<close> with the
  completion flag still false.
\<close>

theorem first_record_without_id_raises_KeyError:
  "SFDXJsonPollingTask_process_output example_library ''{\"done\": true}''
     (example_task SFDXDeploy True)
   = (Inl (KeyError ''id''),
      (example_task SFDXDeploy True)
        \<lparr>return_values_data := Some (PDict [(''done'', PBool True)])\<rparr>)
   \<and> poll_complete (example_task SFDXDeploy True) = False"
  by (simp add: SFDXJsonPollingTask_process_output_def SFDXJsonTask_process_output_def
      process_data_def SFDXJsonPollingTask_process_data_def example_library_def
      example_records_def example_task_def raises_def)

section \<open>The completion check\<close>

text \<open>
  Called the way it is defined, without an argument, \<^verbatim>\<open>_check_poll_done\<close> returns the
  \<^verbatim>\<open>done\<close> field of a mapping and \<^verbatim>\<open>True\<close> when the field is missing.
\<close>

lemma check_poll_done_body:
  "return_values_data s = Some (PDict kvs) \<Longrightarrow>
     SFDXJsonPollingTask_check_poll_done [] s =
       (Inr (case map_of kvs ''done'' of None \<Rightarrow> PBool True | Some v \<Rightarrow> v), s)"
  by (simp add: SFDXJsonPollingTask_check_poll_done_def returns_def)

lemma process_poll_data_stored:
  "return_values_data s = Some d \<Longrightarrow>
     SFDXJsonPollingTask_process_poll_data s = (Inl TypeError, logger_info d s)"
  by (simp add: SFDXJsonPollingTask_process_poll_data_def
      SFDXJsonPollingTask_check_poll_done_def raises_def)

lemma process_poll_data_never_returns:
  "fst (SFDXJsonPollingTask_process_poll_data s) \<noteq> Inr u"
  by (cases "return_values_data s")
    (simp_all add: SFDXJsonPollingTask_process_poll_data_def
      SFDXJsonPollingTask_check_poll_done_def raises_def)

lemma process_poll_data_poll_complete:
  "poll_complete (snd (SFDXJsonPollingTask_process_poll_data s)) = poll_complete s"
  by (cases "return_values_data s")
    (simp_all add: SFDXJsonPollingTask_process_poll_data_def
      SFDXJsonPollingTask_check_poll_done_def raises_def logger_info_def)

lemma process_poll_data_job_id:
  "job_id (snd (SFDXJsonPollingTask_process_poll_data s)) = job_id s"
  by (cases "return_values_data s")
    (simp_all add: SFDXJsonPollingTask_process_poll_data_def
      SFDXJsonPollingTask_check_poll_done_def raises_def logger_info_def)

text \<open>
  Once the \<^verbatim>\<open>job_id\<close> attribute exists, no line makes the polling task's
  \<^verbatim>\<open>_process_output\<close> return: the call of \<^verbatim>\<open>_process_poll_data\<close> that ends it raises.
\<close>

lemma process_output_never_returns:
  assumes "job_id s \<noteq> None"
  shows "fst (SFDXJsonPollingTask_process_output lib line s) \<noteq> Inr u"
proof -
  obtain r s' where run: "SFDXJsonTask_process_output lib line s = (r, s')"
    by (cases "SFDXJsonTask_process_output lib line s")
  show ?thesis
    using assms process_poll_data_never_returns [of s' u]
    by (cases r) (simp_all add: SFDXJsonPollingTask_process_output_def run)
qed

text \<open>
  C9, as the code has it. \<^verbatim>\<open>_process_poll_data\<close> passes the record to
  \<^verbatim>\<open>_check_poll_done\<close>, which takes no argument, so on every task that holds a record
  the call raises \<^verbatim>\<open>TypeError\<close> right after logging the record. On a task that holds no
  record the logging line raises \<^verbatim>\<open>KeyError\<close> before that call is made. On no task at
  all does \<^verbatim>\<open>_process_poll_data\<close> return, and it never changes the completion flag;
  hence \<^verbatim>\<open>_process_output\<close> of a polling task never returns either, once \<^verbatim>\<open>_init_task\<close>
  has run.
\<close>

theorem process_poll_data_always_raises:
  "(return_values_data s = Some d \<longrightarrow>
      SFDXJsonPollingTask_check_poll_done [d] (logger_info d s) =
        (Inl TypeError, logger_info d s)
      \<and> SFDXJsonPollingTask_process_poll_data s = (Inl TypeError, logger_info d s))
   \<and> (return_values_data s = None \<longrightarrow>
        SFDXJsonPollingTask_process_poll_data s = (Inl (KeyError ''data''), s))
   \<and> fst (SFDXJsonPollingTask_process_poll_data s) \<noteq> Inr ()
   \<and> poll_complete (snd (SFDXJsonPollingTask_process_poll_data s)) = poll_complete s
   \<and> (job_id s \<noteq> None \<longrightarrow>
        fst (SFDXJsonPollingTask_process_output lib line s) \<noteq> Inr ())"
proof -
  have no_record: "return_values_data s = None \<longrightarrow>
      SFDXJsonPollingTask_process_poll_data s = (Inl (KeyError ''data''), s)"
    by (simp add: SFDXJsonPollingTask_process_poll_data_def raises_def)
  show ?thesis
    using no_record process_poll_data_stored [of s d] process_poll_data_never_returns [of s "()"]
      process_poll_data_poll_complete [of s] process_output_never_returns [of s lib line "()"]
    by (simp add: SFDXJsonPollingTask_check_poll_done_def raises_def)
qed

theorem process_poll_data_always_raises_witness:
  "return_values_data done_task = Some (PDict [(''done'', PBool True)])
   \<and> SFDXJsonPollingTask_process_poll_data done_task =
       (Inl TypeError, logger_info (PDict [(''done'', PBool True)]) done_task)
   \<and> return_values_data (example_task SFDXDeploy True) = None
   \<and> SFDXJsonPollingTask_process_poll_data (example_task SFDXDeploy True) =
       (Inl (KeyError ''data''), example_task SFDXDeploy True)
   \<and> job_id done_task \<noteq> None
   \<and> fst (SFDXJsonPollingTask_process_output example_library ''{\"done\": true}'' done_task)
       \<noteq> Inr ()"
proof -
  have h1: "return_values_data done_task = Some (PDict [(''done'', PBool True)])"
    by (simp add: done_task_def)
  have h2: "job_id done_task \<noteq> None"
    by (simp add: done_task_def started_task_def)
  have h3: "return_values_data (example_task SFDXDeploy True) = None"
    by (simp add: example_task_def)
  show ?thesis
    using h1 h2 h3
      process_poll_data_always_raises
        [of done_task "PDict [(''done'', PBool True)]" example_library "''{\"done\": true}''"]
      process_poll_data_always_raises [of "example_task SFDXDeploy True"]
    by blast
qed

text \<open>
  C9, as the claim states it, fails: on a task that holds no record yet,
  \<^verbatim>\<open>_process_poll_data\<close> raises \<^verbatim>\<open>KeyError\<close> at its logging line, not \<^verbatim>\<open>TypeError\<close>.
\<close>

theorem process_poll_data_without_record_raises_KeyError:
  "SFDXJsonPollingTask_process_poll_data (example_task SFDXDeploy True) =
     (Inl (KeyError ''data''), example_task SFDXDeploy True)"
  by (simp add: SFDXJsonPollingTask_process_poll_data_def example_task_def raises_def)

text \<open>
  C3 at a concrete record: while polling with the record \<^verbatim>\<open>{"done": true}\<close> stored,
  \<^verbatim>\<open>_process_poll_data\<close> logs the record and raises \<^verbatim>\<open>TypeError\<close> at its call of the
  completion check with the record as argument; the completion flag stays false. The
  same check called without an argument returns \<^verbatim>\<open>True\<close> there.
\<close>

theorem check_poll_done_call_raises_TypeError:
  "SFDXJsonPollingTask_process_poll_data done_task =
     (Inl TypeError, done_task\<lparr>logger := [LogInfo (PDict [(''done'', PBool True)])]\<rparr>)
   \<and> poll_complete done_task = False
   \<and> SFDXJsonPollingTask_check_poll_done [PDict [(''done'', PBool True)]] done_task =
       (Inl TypeError, done_task)
   \<and> SFDXJsonPollingTask_check_poll_done [] done_task = (Inr (PBool True), done_task)"
  by (simp add: SFDXJsonPollingTask_process_poll_data_def SFDXJsonPollingTask_check_poll_done_def
      done_task_def started_task_def example_task_def raises_def returns_def logger_info_def)

section \<open>The flag \<^verbatim>\<open>started\<close>\<close>

text \<open>
  The methods of the file leave the \<^verbatim>\<open>job_id\<close> attribute in place once it exists,
  provided the inherited \<^verbatim>\<open>_poll\<close> does.
\<close>

lemma process_data_job_id:
  assumes "job_id s \<noteq> None"
    and "\<forall>t. job_id t \<noteq> None \<longrightarrow> job_id (snd (Command_poll lib t)) \<noteq> None"
  shows "job_id (snd (process_data lib s)) \<noteq> None"
proof (cases "cls s = SFDXJsonPollingTask \<or> cls s = SFDXDeploy")
  case False
  then show ?thesis
    using assms(1)
    by (cases "cls s")
      (auto simp: process_data_def SFDXJsonTask_process_data_def
        SFDXConvertFrom_process_data_def SFDXConvertTo_process_data_def
        raises_def returns_def logger_info_def
        split: option.splits sum.splits)
next
  case True
  then have eq: "process_data lib s = SFDXJsonPollingTask_process_data lib s"
    by (auto simp: process_data_def)
  show ?thesis
    using assms process_poll_data_job_id [of s]
    unfolding eq
    by (auto simp: SFDXJsonPollingTask_process_data_def raises_def
        split: option.splits sum.splits)
qed

lemma process_output_job_id:
  assumes "job_id s \<noteq> None"
    and "\<forall>t. job_id t \<noteq> None \<longrightarrow> job_id (snd (Command_poll lib t)) \<noteq> None"
  shows "job_id (snd (SFDXJsonPollingTask_process_output lib line s)) \<noteq> None"
proof -
  have inner: "job_id (snd (SFDXJsonTask_process_output lib line s)) \<noteq> None"
  proof (cases "json_loads lib line")
    case None
    then show ?thesis
      using assms(1)
      by (simp add: SFDXJsonTask_process_output_def raises_def logger_error_def)
  next
    case (Some v)
    then show ?thesis
      using process_data_job_id [of "s\<lparr>return_values_data := Some v\<rparr>" lib] assms
      by (simp add: SFDXJsonTask_process_output_def)
  qed
  obtain r s' where run: "SFDXJsonTask_process_output lib line s = (r, s')"
    by (cases "SFDXJsonTask_process_output lib line s")
  show ?thesis
    using inner assms(1) process_poll_data_job_id [of s']
    by (cases r) (simp_all add: SFDXJsonPollingTask_process_output_def run)
qed

text \<open>
  C10, as the code has it. When \<^verbatim>\<open>_init_task\<close> returns, the attribute \<^verbatim>\<open>job_id\<close> exists
  (holding \<^verbatim>\<open>None\<close>), and processing a line keeps it in existence. With the attribute
  there, \<^verbatim>\<open>started\<close> is true: \<^verbatim>\<open>_process_output\<close> is the inherited \<^verbatim>\<open>_process_output\<close>
  followed, when that returns, by \<^verbatim>\<open>_process_poll_data\<close>, and the other branch is never
  taken. Once the job identifier is set, the inherited \<^verbatim>\<open>_process_output\<close> of a line
  that decodes is itself the call of \<^verbatim>\<open>_process_poll_data\<close> that \<^verbatim>\<open>_process_data\<close>
  dispatches to, so the second call is made only when that first one returns.
\<close>

theorem started_flag_always_true:
  "(fst (SFDXJsonPollingTask_init_task lib s0) = Inr () \<longrightarrow>
      job_id (snd (SFDXJsonPollingTask_init_task lib s0)) = Some PNone)
   \<and> (job_id s \<noteq> None \<and>
        (\<forall>t. job_id t \<noteq> None \<longrightarrow> job_id (snd (Command_poll lib t)) \<noteq> None) \<longrightarrow>
        job_id (snd (SFDXJsonPollingTask_process_output lib line s)) \<noteq> None)
   \<and> (job_id s \<noteq> None \<longrightarrow>
        SFDXJsonPollingTask_process_output lib line s =
          (case SFDXJsonTask_process_output lib line s of
             (Inl e, s') \<Rightarrow> (Inl e, s')
           | (Inr u, s') \<Rightarrow> SFDXJsonPollingTask_process_poll_data s'))
   \<and> (json_loads lib line = Some v \<and> (cls s = SFDXJsonPollingTask \<or> cls s = SFDXDeploy)
        \<and> job_id s = Some j \<and> truthy j \<longrightarrow>
        SFDXJsonTask_process_output lib line s =
          SFDXJsonPollingTask_process_poll_data (s\<lparr>return_values_data := Some v\<rparr>))"
proof -
  have init: "fst (SFDXJsonPollingTask_init_task lib s0) = Inr () \<longrightarrow>
      job_id (snd (SFDXJsonPollingTask_init_task lib s0)) = Some PNone"
    by (auto simp: SFDXJsonPollingTask_init_task_def returns_def split: prod.splits sum.splits)
  have branch: "job_id s \<noteq> None \<longrightarrow>
        SFDXJsonPollingTask_process_output lib line s =
          (case SFDXJsonTask_process_output lib line s of
             (Inl e, s') \<Rightarrow> (Inl e, s')
           | (Inr u, s') \<Rightarrow> SFDXJsonPollingTask_process_poll_data s')"
    by (auto simp: SFDXJsonPollingTask_process_output_def split: prod.splits sum.splits)
  have dispatch: "json_loads lib line = Some v
        \<and> (cls s = SFDXJsonPollingTask \<or> cls s = SFDXDeploy)
        \<and> job_id s = Some j \<and> truthy j \<longrightarrow>
        SFDXJsonTask_process_output lib line s =
          SFDXJsonPollingTask_process_poll_data (s\<lparr>return_values_data := Some v\<rparr>)"
    by (auto simp: SFDXJsonTask_process_output_def process_data_def
        SFDXJsonPollingTask_process_data_def)
  show ?thesis
    using init branch dispatch process_output_job_id [of s lib line] by blast
qed

theorem started_flag_always_true_witness:
  "fst (SFDXJsonPollingTask_init_task example_library
          ((example_task SFDXDeploy True)\<lparr>job_id := None\<rparr>)) = Inr ()
   \<and> job_id (snd (SFDXJsonPollingTask_init_task example_library
          ((example_task SFDXDeploy True)\<lparr>job_id := None\<rparr>))) = Some PNone
   \<and> job_id started_task \<noteq> None
   \<and> (\<forall>t. job_id t = None \<or> job_id (snd (Command_poll example_library t)) \<noteq> None)
   \<and> job_id (snd (SFDXJsonPollingTask_process_output example_library ''{\"done\": false}''
          started_task)) \<noteq> None
   \<and> json_loads example_library ''{\"done\": false}'' = Some (PDict [(''done'', PBool False)])
   \<and> (cls started_task = SFDXJsonPollingTask \<or> cls started_task = SFDXDeploy)
   \<and> job_id started_task = Some (PStr ''J1'') \<and> truthy (PStr ''J1'')
   \<and> SFDXJsonTask_process_output example_library ''{\"done\": false}'' started_task =
       SFDXJsonPollingTask_process_poll_data
         (started_task\<lparr>return_values_data := Some (PDict [(''done'', PBool False)])\<rparr>)"
proof -
  have h1: "fst (SFDXJsonPollingTask_init_task example_library
          ((example_task SFDXDeploy True)\<lparr>job_id := None\<rparr>)) = Inr ()"
    by (simp add: SFDXJsonPollingTask_init_task_def example_library_def returns_def)
  have h2: "job_id started_task = Some (PStr ''J1'')"
    by (simp add: started_task_def)
  have h2n: "job_id started_task \<noteq> None"
    using h2 by simp
  have h3: "\<forall>t. job_id t \<noteq> None \<longrightarrow> job_id (snd (Command_poll example_library t)) \<noteq> None"
    by (simp add: example_library_def returns_def)
  have h4: "json_loads example_library ''{\"done\": false}'' =
      Some (PDict [(''done'', PBool False)])"
    by (simp add: example_library_def example_records_def)
  have h5: "cls started_task = SFDXJsonPollingTask \<or> cls started_task = SFDXDeploy"
    by (simp add: started_task_def example_task_def)
  have h6: "truthy (PStr ''J1'')"
    by simp
  have init: "job_id (snd (SFDXJsonPollingTask_init_task example_library
          ((example_task SFDXDeploy True)\<lparr>job_id := None\<rparr>))) = Some PNone"
    using h1 started_flag_always_true
      [of example_library "(example_task SFDXDeploy True)\<lparr>job_id := None\<rparr>"]
    by blast
  have rest: "job_id (snd (SFDXJsonPollingTask_process_output example_library
          ''{\"done\": false}'' started_task)) \<noteq> None
      \<and> SFDXJsonTask_process_output example_library ''{\"done\": false}'' started_task =
          SFDXJsonPollingTask_process_poll_data
            (started_task\<lparr>return_values_data := Some (PDict [(''done'', PBool False)])\<rparr>)"
    using h2 h2n h3 h4 h5 h6 started_flag_always_true
      [of example_library started_task started_task "''{\"done\": false}''"
          "PDict [(''done'', PBool False)]" "PStr ''J1''"]
    by blast
  show ?thesis
    using h1 h2 h2n h3 h4 h5 h6 init rest by blast
qed

text \<open>
  C10, as the claim states it, fails: with the job identifier set, the line
  \<^verbatim>\<open>{"done": true}\<close> reaches \<^verbatim>\<open>_process_poll_data\<close> once, not twice. The one call logs
  the record and raises, so the log holds a single entry and the call that
  \<^verbatim>\<open>_process_output\<close> makes itself is never reached.
\<close>

theorem poll_data_invoked_once_when_job_set:
  "SFDXJsonPollingTask_process_output example_library ''{\"done\": true}'' started_task
   = (Inl TypeError,
      started_task\<lparr>return_values_data := Some (PDict [(''done'', PBool True)]),
                   logger := [LogInfo (PDict [(''done'', PBool True)])]\<rparr>)"
  by (simp add: SFDXJsonPollingTask_process_output_def SFDXJsonTask_process_output_def
      process_data_def SFDXJsonPollingTask_process_data_def
      SFDXJsonPollingTask_process_poll_data_def SFDXJsonPollingTask_check_poll_done_def
      example_library_def example_records_def example_task_def started_task_def
      raises_def logger_info_def)

section \<open>A deploy task polling for job J1\<close>

text \<open>
  C1 on the code. The first line \<^verbatim>\<open>{"id": "J1", "done": false}\<close> stores \<^verbatim>\<open>J1\<close> as the job
  identifier and starts \<^verbatim>\<open>_poll\<close>; the poll action hands \<^verbatim>\<open>_run_command\<close> a command that
  ends in \<^verbatim>\<open>-i J1\<close>. The first poll line \<^verbatim>\<open>{"done": false}\<close> then raises \<^verbatim>\<open>TypeError\<close>
  with the completion flag still false, and whatever \<^verbatim>\<open>_poll\<close> does, processing the
  first line never returns: the task does not reach completion through three polls.
\<close>

theorem deploy_polling_scenario_raises_TypeError:
  "SFDXJsonTask_process_output (lib\<lparr>json_loads := map_of example_records\<rparr>)
       ''{\"id\": \"J1\", \"done\": false}'' (example_task SFDXDeploy True)
     = Command_poll lib started_task
   \<and> SFDXJsonPollingTask_poll_action lib started_task
     = Command_run_command lib (Command_get_env lib)
         (Some ''sfdx force:mdapi:deploy -u test@example.com -i J1'') started_task
   \<and> SFDXJsonPollingTask_process_output (lib\<lparr>json_loads := map_of example_records\<rparr>)
       ''{\"done\": false}'' started_task
     = (Inl TypeError,
        started_task\<lparr>return_values_data := Some (PDict [(''done'', PBool False)]),
                     logger := [LogInfo (PDict [(''done'', PBool False)])]\<rparr>)
   \<and> poll_complete started_task = False
   \<and> fst (SFDXJsonPollingTask_process_output (lib\<lparr>json_loads := map_of example_records\<rparr>)
       ''{\"id\": \"J1\", \"done\": false}'' (example_task SFDXDeploy True)) \<noteq> Inr ()"
proof -
  let ?lib = "lib\<lparr>json_loads := map_of example_records\<rparr>"
  let ?first = "''{\"id\": \"J1\", \"done\": false}''"
  have first: "SFDXJsonTask_process_output ?lib ?first (example_task SFDXDeploy True)
     = Command_poll lib started_task"
    by (simp add: SFDXJsonTask_process_output_def process_data_def
        SFDXJsonPollingTask_process_data_def example_records_def example_task_def
        started_task_def)
  have command: "SFDXJsonPollingTask_poll_action lib started_task
     = Command_run_command lib (Command_get_env lib)
         (Some ''sfdx force:mdapi:deploy -u test@example.com -i J1'') started_task"
    by (simp add: SFDXJsonPollingTask_poll_action_def get_poll_command_def get_env_def
        SFDXDeploy_get_poll_command_def SFDXOrgTask_get_command_def SFDXOrgTask_get_env_def
        SFDXBaseTask_get_command_def SFDX_CLI_def format_value_def returns_def
        started_task_def example_task_def)
  have poll: "SFDXJsonPollingTask_process_output ?lib ''{\"done\": false}'' started_task
     = (Inl TypeError,
        started_task\<lparr>return_values_data := Some (PDict [(''done'', PBool False)]),
                     logger := [LogInfo (PDict [(''done'', PBool False)])]\<rparr>)"
    by (simp add: SFDXJsonPollingTask_process_output_def SFDXJsonTask_process_output_def
        process_data_def SFDXJsonPollingTask_process_data_def
        SFDXJsonPollingTask_process_poll_data_def SFDXJsonPollingTask_check_poll_done_def
        example_records_def example_task_def started_task_def raises_def logger_info_def)
  have flag: "poll_complete started_task = False"
    by (simp add: started_task_def example_task_def)
  have never: "fst (SFDXJsonPollingTask_process_output ?lib ?first (example_task SFDXDeploy True))
     \<noteq> Inr ()"
    by (rule process_output_never_returns) (simp add: example_task_def)
  show ?thesis using first command poll flag never by simp
qed

end
